theory Spec2Isabelle
  imports Main
begin

section \<open>The signaling relay of src/server/SignalingServer.ts\<close>

text \<open>
  The relay keeps four registries (channels, pending offers, connections, peers) and
  reacts to the messages of its sockets. The model passes the whole instance as a record:
  the four maps, the two event emitters, and what the relay did to the outside world
  (what it wrote to which socket, which sockets it ended, what it logged, which listeners
  it called). Every method is a function from the instance to an optional exception and
  the instance as the method left it: a JavaScript exception does not undo the
  assignments made before it, so the state at the \<open>throw\<close> is part of the result.

  The methods are modelled as they are written, with \<open>this\<close> the relay instance
  (the constructor hands \<open>this.connectionHandler\<close> to the socket server as it is; the
  model takes it as the method of the relay that its body is written to be).
\<close>

subsection \<open>Data\<close>

text \<open>A socket: the handle itself, and what \<open>connection.address().address\<close> returns.\<close>

record Socket =
  handle :: nat
  address :: string

text \<open>\<open>interface Peer { ip; connection }\<close>\<close>

record Peer =
  ip :: string
  connection :: Socket

text \<open>\<open>interface Channel { id; peers }\<close>\<close>

record Channel =
  id_channel :: string
  peers :: "string list"

text \<open>
  A value of a message that the relay passes on: an object (the interfaces declare
  \<open>offer\<close>, \<open>answer\<close> and \<open>candidate\<close> as objects; \<open>'v\<close> is what is in
  it, which the relay never reads), or what else JSON can hold there: a string, a number,
  a boolean, \<open>null\<close>. The relay reads one thing of such a value, whether it is
  truthy: an object always is, a string unless empty, a number unless zero, \<open>null\<close>
  never.
\<close>

datatype 'v jsval =
  VObject 'v
  | VString string
  | VNumber int
  | VBool bool
  | VNull

fun truthy :: "'v jsval \<Rightarrow> bool" where
  "truthy (VObject v) = True"
| "truthy (VString s) = (s \<noteq> [])"
| "truthy (VNumber n) = (n \<noteq> 0)"
| "truthy (VBool b) = b"
| "truthy VNull = False"

text \<open>
  The payload of a signaling message: \<open>target\<close> and \<open>channel\<close> at the type the
  message interfaces of the handlers declare, strings. A field that is absent reads as
  \<open>undefined\<close>: \<open>None\<close>.
\<close>

record 'v fields =
  target :: "string option"
  channel :: "string option"
  offer :: "'v jsval option"
  answer :: "'v jsval option"
  candidate :: "'v jsval option"

text \<open>
  \<open>SignalMessage.payload\<close> is declared \<open>any\<close>: it can be absent, \<open>null\<close>, a
  primitive (a number, a string, a boolean; the flag says whether it is truthy), or an
  object.
\<close>

datatype 'v payload =
  PUndefined
  | PNull
  | PPrimitive bool
  | PObject "'v fields"

text \<open>
  What \<open>JSON.parse(message.data)\<close> gives: it throws a \<open>SyntaxError\<close>, or returns
  \<open>null\<close>, or a value that has neither a \<open>type\<close> nor a \<open>payload\<close> (a number,
  a string, a boolean, an array; kept with its \<open>toString()\<close>), or an object with its
  \<open>type\<close> and \<open>payload\<close>. An object is taken without a member of its own named
  \<open>toString\<close>, so that \<open>data.toString()\<close> is \<open>[object Object]\<close>.
\<close>

datatype 'v parsed =
  SyntaxError
  | JNull
  | JValue string
  | JObject "string option" "'v payload"

text \<open>
  What the relay writes to a socket, \<open>JSON.stringify\<close> of an object literal; a field
  whose value is \<open>undefined\<close> is left out by \<open>JSON.stringify\<close>, hence the options.
\<close>

datatype 'v wire =
  Offer_msg string "'v jsval option"
  | Answer_msg string "'v jsval option"
  | Candidate_msg "'v jsval option"

text \<open>
  Exceptions: \<open>new Error(message)\<close>, thrown by the code, and the \<open>TypeError\<close> the
  runtime throws when a property of \<open>undefined\<close> or \<open>null\<close> is read.
\<close>

datatype error =
  Error string
  | TypeError

text \<open>The lines of the console: \<open>console.log\<close>, \<open>console.error\<close> of a text, and
  \<open>console.error(err.message)\<close>.\<close>

datatype log =
  Log string
  | Err string
  | ErrMessage error

record 'v state =
  port :: nat
  verbose :: bool
  channels :: "string \<rightharpoonup> Channel"
  pendingOffers :: "string \<rightharpoonup> string"
  connections :: "string \<rightharpoonup> bool"
  peerMap :: "string \<rightharpoonup> Peer"
  emitter :: "(string \<times> nat) list"
  listeners :: "(string \<times> nat) list"
  written :: "(Socket \<times> 'v wire) list"
  ended :: "Socket list"
  console :: "log list"
  delivered :: "(nat \<times> string \<times> string) list"

text \<open>
  \<open>emitter\<close> holds the listeners of the private \<open>#emitter\<close>, \<open>listeners\<close> those
  of the relay object itself (the class extends \<open>EventEmitter\<close>), each with the event
  name it was registered for. \<open>delivered\<close> lists the listener calls made, with the pair
  of identities passed.
\<close>

subsection \<open>JavaScript helpers\<close>

text \<open>\<open>!x\<close> for a string that may be \<open>undefined\<close>: true when absent or empty.\<close>

definition falsy :: "string option \<Rightarrow> bool" where
  "falsy x = (case x of None \<Rightarrow> True | Some s \<Rightarrow> s = [])"

text \<open>\<open>!x\<close> for a value that may be \<open>undefined\<close>.\<close>

definition falsy_value :: "'v jsval option \<Rightarrow> bool" where
  "falsy_value x = (case x of None \<Rightarrow> True | Some v \<Rightarrow> \<not> truthy v)"

text \<open>\<open>${x}\<close> in a template literal, for a string that may be \<open>undefined\<close>.\<close>

definition str :: "string option \<Rightarrow> string" where
  "str x = (case x of None \<Rightarrow> ''undefined'' | Some s \<Rightarrow> s)"

text \<open>\<open>Map.get(k)\<close> where the key may be \<open>undefined\<close>; the keys stored are strings.\<close>

definition map_get :: "(string \<rightharpoonup> 'a) \<Rightarrow> string option \<Rightarrow> 'a option" where
  "map_get m k = (case k of None \<Rightarrow> None | Some k' \<Rightarrow> m k')"

text \<open>
  Reading the fields of the payload: a property of \<open>undefined\<close> or \<open>null\<close> throws, a
  primitive has none of the five properties.
\<close>

definition no_fields :: "'v fields" where
  "no_fields = \<lparr>target = None, channel = None, offer = None, answer = None, candidate = None\<rparr>"

fun fields_of :: "'v payload \<Rightarrow> error + 'v fields" where
  "fields_of PUndefined = Inl TypeError"
| "fields_of PNull = Inl TypeError"
| "fields_of (PPrimitive b) = Inr no_fields"
| "fields_of (PObject p) = Inr p"

text \<open>\<open>!data.payload\<close>\<close>

fun falsy_payload :: "'v payload \<Rightarrow> bool" where
  "falsy_payload PUndefined = True"
| "falsy_payload PNull = True"
| "falsy_payload (PPrimitive b) = (\<not> b)"
| "falsy_payload (PObject p) = False"

text \<open>\<open>throw new Error(msg)\<close>\<close>

definition throw :: "string \<Rightarrow> 'v state \<Rightarrow> error option \<times> 'v state" where
  "throw msg st = (Some (Error msg), st)"

text \<open>\<open>EventEmitter.emit(ev, args)\<close>: the calls made, one per listener of \<open>ev\<close>.\<close>

definition emit :: "(string \<times> nat) list \<Rightarrow> string \<Rightarrow> string \<times> string \<Rightarrow> (nat \<times> string \<times> string) list" where
  "emit ls ev args = map (\<lambda>(n, l). (l, args)) (filter (\<lambda>(n, l). n = ev) ls)"

text \<open>\<open>socket.write(JSON.stringify(m))\<close>\<close>

definition write_socket :: "Socket \<Rightarrow> 'v wire \<Rightarrow> 'v state \<Rightarrow> 'v state" where
  "write_socket s m st = st\<lparr>written := written st @ [(s, m)]\<rparr>"

subsection \<open>The constructor and the public interface\<close>

definition constructor :: "nat \<Rightarrow> bool option \<Rightarrow> 'v state" where
  "constructor p v =
     \<lparr>port = p,
      verbose = (case v of Some b \<Rightarrow> b | None \<Rightarrow> False),
      channels = Map.empty,
      pendingOffers = Map.empty,
      connections = Map.empty,
      peerMap = Map.empty,
      emitter = [],
      listeners = [],
      written = [],
      ended = [],
      console = [],
      delivered = []\<rparr>"

text \<open>\<open>server.on(ev, listener)\<close>, inherited from \<open>EventEmitter\<close>: the only way the
  embedding code can subscribe. No method gives access to \<open>#emitter\<close>.\<close>

definition on :: "string \<Rightarrow> nat \<Rightarrow> 'v state \<Rightarrow> 'v state" where
  "on ev l st = st\<lparr>listeners := listeners st @ [(ev, l)]\<rparr>"

definition getPort :: "'v state \<Rightarrow> nat" where
  "getPort st = port st"

subsection \<open>The handlers\<close>

definition joinPool :: "'v state \<Rightarrow> Socket \<Rightarrow> 'v payload \<Rightarrow> error option \<times> 'v state" where
  "joinPool st source pl =
     (case fields_of pl of
        Inl e \<Rightarrow> (Some e, st)
      | Inr p \<Rightarrow>
          (case channel p of
             None \<Rightarrow> throw ''channel property not set in payload'' st
           | Some c \<Rightarrow>
               if c = [] then throw ''channel property not set in payload'' st
               else
                 (case channels st c of
                    None \<Rightarrow>
                      (None, st\<lparr>channels := (channels st)
                                 (c \<mapsto> \<lparr>id_channel = c, peers = [address source]\<rparr>)\<rparr>)
                  | Some ch \<Rightarrow>
                      (None, st\<lparr>channels := (channels st)
                                 (c \<mapsto> ch\<lparr>peers := peers ch @ [address source]\<rparr>)\<rparr>))))"

text \<open>
  The key of the pending-offer store that \<open>relayOffer\<close> writes. The first component of
  the template is \<open>${channel}\<close>, the \<open>Channel\<close> object fetched from the registry, and
  an object in a template literal is the text \<open>[object Object]\<close>.
\<close>

definition offerKey :: "Channel \<Rightarrow> string \<Rightarrow> string \<Rightarrow> string" where
  "offerKey ch src tgt = ''pendingOffers/'' @ ''[object Object]'' @ ''/'' @ src @ ''/'' @ tgt"

text \<open>The key \<open>relayAnswer\<close> reads and deletes: \<open>${payload.channel}\<close> comes first.\<close>

definition answerKey :: "string \<Rightarrow> string \<Rightarrow> string \<Rightarrow> string" where
  "answerKey c tgt src = ''pendingOffers/'' @ c @ ''/'' @ tgt @ ''/'' @ src"

text \<open>The key of the connection store: \<open>${channel}/${a}#${b}\<close>.\<close>

definition connKey :: "string \<Rightarrow> string \<Rightarrow> string \<Rightarrow> string" where
  "connKey c a b = c @ ''/'' @ a @ ''#'' @ b"

definition relayOffer :: "'v state \<Rightarrow> Socket \<Rightarrow> 'v payload \<Rightarrow> error option \<times> 'v state" where
  "relayOffer st source pl =
     (case fields_of pl of
        Inl e \<Rightarrow> (Some e, st)
      | Inr p \<Rightarrow>
          if falsy (target p) then throw ''target property not found on message payload'' st
          else if falsy (channel p) then throw ''channel property not found on message payload'' st
          else if falsy_value (offer p) then throw ''offer property not found on message payload'' st
          else
            (case map_get (channels st) (channel p) of
               None \<Rightarrow> throw ''Channel doesn't exist'' st
             | Some ch \<Rightarrow>
                 (case find (\<lambda>peer. Some peer = target p) (peers ch) of
                    None \<Rightarrow> throw ''Peer not in channel!'' st
                  | Some peer \<Rightarrow>
                      if peer = [] then throw ''Peer not in channel!'' st
                      else
                        let st1 = st\<lparr>pendingOffers := (pendingOffers st)
                                       (offerKey ch (address source) (str (target p)) \<mapsto> ''pending'')\<rparr>
                        in (case peerMap st1 peer of
                              None \<Rightarrow> (Some TypeError, st1)
                            | Some pr \<Rightarrow>
                                (None, write_socket (connection pr)
                                         (Offer_msg (address source) (offer p)) st1)))))"

definition relayAnswer :: "'v state \<Rightarrow> Socket \<Rightarrow> 'v payload \<Rightarrow> error option \<times> 'v state" where
  "relayAnswer st source pl =
     (case fields_of pl of
        Inl e \<Rightarrow> (Some e, st)
      | Inr p \<Rightarrow>
          if falsy (target p) then throw ''target property not found on message payload'' st
          else if falsy (channel p) then throw ''channel property not found on message payload'' st
          else if falsy (channel p) then throw ''answer property not found on message payload'' st
          else
            let key = answerKey (str (channel p)) (str (target p)) (address source) in
            if falsy (pendingOffers st key) then throw ''Offer doesn't exist for given target!'' st
            else
              (case map_get (channels st) (channel p) of
                 None \<Rightarrow> throw ''Channel doesn't exist'' st
               | Some ch \<Rightarrow>
                   (case find (\<lambda>peer. Some peer = target p) (peers ch) of
                      None \<Rightarrow> throw ''Peer not in channel!'' st
                    | Some peer \<Rightarrow>
                        if peer = [] then throw ''Peer not in channel!'' st
                        else
                          let st1 = st\<lparr>pendingOffers := (pendingOffers st)(key := None)\<rparr>
                          in (case peerMap st1 peer of
                                None \<Rightarrow> (Some TypeError, st1)
                              | Some pr \<Rightarrow>
                                  let st2 = write_socket (connection pr)
                                              (Answer_msg (address source) (answer p)) st1;
                                      st3 = st2\<lparr>connections := (connections st2)
                                              (connKey (str (channel p)) (address source) (str (target p))
                                                 \<mapsto> True)\<rparr>;
                                      st4 = st3\<lparr>connections := (connections st3)
                                              (connKey (str (channel p)) (str (target p)) (address source)
                                                 \<mapsto> True)\<rparr>;
                                      st5 = st4\<lparr>delivered := delivered st4 @
                                              emit (emitter st4) ''p2pupgrade''
                                                (address source, str (target p))\<rparr>
                                  in (None, st5)))))"

definition passCandidate :: "'v state \<Rightarrow> Socket \<Rightarrow> 'v payload \<Rightarrow> error option \<times> 'v state" where
  "passCandidate st source pl =
     (case fields_of pl of
        Inl e \<Rightarrow> (Some e, st)
      | Inr p \<Rightarrow>
          (case map_get (peerMap st) (target p) of
             None \<Rightarrow> (Some TypeError, st)
           | Some pr \<Rightarrow> (None, write_socket (connection pr) (Candidate_msg (candidate p)) st)))"

subsection \<open>Connections and the message handler\<close>

text \<open>
  \<open>connectionHandler\<close> logs the connection when \<open>verbose\<close> is set and registers the
  peer under the address of its socket; the listener it installs for the messages of the
  socket is \<open>onMessage\<close> below.
\<close>

definition connectionHandler :: "'v state \<Rightarrow> Socket \<Rightarrow> 'v state" where
  "connectionHandler st conn =
     (let st1 = (if verbose st
                 then st\<lparr>console := console st @ [Log (''Incoming connection from '' @ address conn)]\<rparr>
                 else st)
      in st1\<lparr>peerMap := (peerMap st1)(address conn \<mapsto> \<lparr>ip = address conn, connection = conn\<rparr>)\<rparr>)"

text \<open>The \<open>switch (data.type)\<close>: four handlers, two empty cases, and no default.\<close>

definition route :: "'v state \<Rightarrow> Socket \<Rightarrow> string option \<Rightarrow> 'v payload \<Rightarrow> error option \<times> 'v state" where
  "route st conn ty pl =
     (if ty = Some ''join-pool'' then joinPool st conn pl
      else if ty = Some ''offer'' then relayOffer st conn pl
      else if ty = Some ''answer'' then relayAnswer st conn pl
      else if ty = Some ''candidate'' then passCandidate st conn pl
      else if ty = Some ''keep-alive'' then (None, st)
      else if ty = Some ''kill'' then (None, st)
      else (None, st))"

text \<open>
  The second \<open>try\<close>: what a handler throws is caught and logged in two lines;
  \<open>shown\<close> is \<open>data.toString()\<close>.
\<close>

definition dispatch :: "'v state \<Rightarrow> Socket \<Rightarrow> string option \<Rightarrow> 'v payload \<Rightarrow> string \<Rightarrow> error option \<times> 'v state" where
  "dispatch st conn ty pl shown =
     (case route st conn ty pl of
        (None, st') \<Rightarrow> (None, st')
      | (Some err, st') \<Rightarrow>
          (None, st'\<lparr>console := console st' @
             [Err (''Signaling message incorrectly formatted, is NOT a correctly formatted message''
                   @ [CHR 0x0A] @ '' Recieved '' @ shown),
              ErrMessage err]\<rparr>))"

text \<open>
  The \<open>catch\<close> of the first \<open>try\<close>, when \<open>data\<close> has a \<open>toString\<close>:
  \<open>connection.end()\<close>, then one line on the console.
\<close>

definition abort :: "'v state \<Rightarrow> Socket \<Rightarrow> string \<Rightarrow> 'v state" where
  "abort st conn shown =
     st\<lparr>ended := ended st @ [conn],
        console := console st @
          [Err (''Signaling message incorrectly formatted, is NOT JSON or NOT correctly a formatted message, aborted connection''
                @ [CHR 0x0A] @ '' Recieved '' @ shown)]\<rparr>"

text \<open>
  The listener for the messages of a socket. The result is the exception that leaves
  the listener, if any.
  \<^item> \<open>JSON.parse\<close> throws: \<open>data\<close> is still \<open>undefined\<close> in the \<open>catch\<close>, the
    socket is ended, and \<open>data.toString()\<close>, evaluated for the text of the log line,
    throws a \<open>TypeError\<close> inside the \<open>catch\<close>; nothing catches it.
  \<^item> \<open>null\<close>: \<open>data.source = connection\<close> throws, and so does \<open>data.toString()\<close>
    in the \<open>catch\<close>.
  \<^item> a value without \<open>type\<close>: for a primitive \<open>data.source = connection\<close>
    throws in strict code, and otherwise \<open>!data.type\<close> holds; the \<open>catch\<close> ends
    the socket and logs; the \<open>switch\<close> then sees \<open>data.type\<close> undefined.
  \<^item> an object: ended and logged when \<open>type\<close> or \<open>payload\<close> is falsy; the
    \<open>switch\<close> runs in either case.
\<close>

definition onMessage :: "'v state \<Rightarrow> Socket \<Rightarrow> 'v parsed \<Rightarrow> error option \<times> 'v state" where
  "onMessage st conn data =
     (case data of
        SyntaxError \<Rightarrow> (Some TypeError, st\<lparr>ended := ended st @ [conn]\<rparr>)
      | JNull \<Rightarrow> (Some TypeError, st\<lparr>ended := ended st @ [conn]\<rparr>)
      | JValue shown \<Rightarrow> dispatch (abort st conn shown) conn None PUndefined shown
      | JObject ty pl \<Rightarrow>
          if falsy ty \<or> falsy_payload pl
          then dispatch (abort st conn ''[object Object]'') conn ty pl ''[object Object]''
          else dispatch st conn ty pl ''[object Object]'')"

text \<open>
  Messages are handled one at a time, each to completion. An exception that leaves a
  listener is not caught by anything in this program: the run stops there.
\<close>

fun deliver :: "'v state \<Rightarrow> (Socket \<times> 'v parsed) list \<Rightarrow> error option \<times> 'v state" where
  "deliver st [] = (None, st)"
| "deliver st ((conn, data) # ms) =
     (case onMessage st conn data of
        (None, st') \<Rightarrow> deliver st' ms
      | (Some e, st') \<Rightarrow> (Some e, st'))"

subsection \<open>The messages of the protocol and a small network\<close>

definition join_pool :: "string \<Rightarrow> 'v parsed" where
  "join_pool c = JObject (Some ''join-pool'') (PObject (no_fields\<lparr>channel := Some c\<rparr>))"

definition offer_to :: "string \<Rightarrow> string \<Rightarrow> 'v jsval \<Rightarrow> 'v fields" where
  "offer_to t c v = no_fields\<lparr>target := Some t, channel := Some c, offer := Some v\<rparr>"

definition answer_to :: "string \<Rightarrow> string \<Rightarrow> 'v jsval \<Rightarrow> 'v fields" where
  "answer_to t c v = no_fields\<lparr>target := Some t, channel := Some c, answer := Some v\<rparr>"

definition candidate_to :: "string \<Rightarrow> 'v jsval \<Rightarrow> 'v fields" where
  "candidate_to t v = no_fields\<lparr>target := Some t, candidate := Some v\<rparr>"

definition sockA :: Socket where
  "sockA = \<lparr>handle = 1, address = ''10.0.0.1''\<rparr>"

definition sockB :: Socket where
  "sockB = \<lparr>handle = 2, address = ''10.0.0.2''\<rparr>"

text \<open>
  A fresh relay with the two peers connected; the offers, answers and candidates are
  objects, each named by a string here.
\<close>

definition fresh :: "string state" where
  "fresh = connectionHandler (connectionHandler (constructor 8080 None) sockA) sockB"

text \<open>The member sequence of a channel; a channel that does not exist has no member.\<close>

definition members :: "'v state \<Rightarrow> string \<Rightarrow> string list" where
  "members st c = (case channels st c of None \<Rightarrow> [] | Some ch \<Rightarrow> peers ch)"

text \<open>
  The handshake of peer A and peer B in channel \<open>c\<close>: both join, A offers to B, B
  answers to A.
\<close>

definition offerAB :: "string \<Rightarrow> Socket \<times> string parsed" where
  "offerAB c = (sockA, JObject (Some ''offer'') (PObject (offer_to (address sockB) c (VObject ''sdp-of-A''))))"

definition answerBA :: "string \<Rightarrow> Socket \<times> string parsed" where
  "answerBA c = (sockB, JObject (Some ''answer'') (PObject (answer_to (address sockA) c (VObject ''sdp-of-B''))))"

definition handshake :: "string \<Rightarrow> (Socket \<times> string parsed) list" where
  "handshake c = [(sockA, join_pool c), (sockB, join_pool c), offerAB c, answerBA c]"

text \<open>Only B has joined \<open>room1\<close>.\<close>

definition only_B_joined :: "string state" where
  "only_B_joined = snd (deliver fresh [(sockB, join_pool ''room1'')])"

text \<open>
  A and B have joined the channel whose name is the text \<open>[object Object]\<close>, and A has
  sent its offer to B there.
\<close>

definition offered :: "string state" where
  "offered = snd (deliver fresh
     [(sockA, join_pool ''[object Object]''), (sockB, join_pool ''[object Object]''),
      offerAB ''[object Object]''])"

text \<open>The same two peers after a complete handshake and a second offer of A to B.\<close>

definition offered_again :: "string state" where
  "offered_again = snd (deliver fresh (handshake ''[object Object]'' @ [offerAB ''[object Object]'']))"

text \<open>
  B has joined \<open>room1\<close> only, A has joined the channel named \<open>[object Object]\<close>
  only, and A has sent its offer to B in \<open>room1\<close>.
\<close>

definition offered_across :: "string state" where
  "offered_across = snd (deliver fresh
     [(sockB, join_pool ''room1''), (sockA, join_pool ''[object Object]''), offerAB ''room1''])"

text \<open>An answer of B to A that has no \<open>answer\<close> field.\<close>

definition answer_missing :: "string fields" where
  "answer_missing = no_fields\<lparr>target := Some ''10.0.0.1'', channel := Some ''[object Object]''\<rparr>"

section \<open>Properties\<close>

subsection \<open>Lemmas on the helpers\<close>

lemmas js_defs = falsy_def falsy_value_def str_def map_get_def throw_def write_socket_def emit_def
  no_fields_def

lemmas key_defs = offerKey_def answerKey_def connKey_def

lemmas handler_defs = joinPool_def relayOffer_def relayAnswer_def passCandidate_def

lemmas run_defs = onMessage_def dispatch_def route_def abort_def connectionHandler_def
  constructor_def

lemmas net_defs = fresh_def sockA_def sockB_def join_pool_def offer_to_def answer_to_def
  candidate_to_def offerAB_def answerBA_def handshake_def only_B_joined_def offered_def
  offered_again_def offered_across_def answer_missing_def

lemma find_absent: "t \<notin> set xs \<Longrightarrow> find (\<lambda>peer. peer = t) xs = None"
  by (induction xs) auto

lemma find_SomeD: "find P xs = Some x \<Longrightarrow> x \<in> set xs \<and> P x"
  by (induction xs) (auto split: if_splits)

text \<open>
  The key \<open>relayOffer\<close> writes is the key \<open>relayAnswer\<close> reads only in the channel
  whose name is the text \<open>[object Object]\<close>.
\<close>

lemma offerKey_is_answerKey:
  "offerKey ch a b = answerKey c a b \<longleftrightarrow> c = ''[object Object]''"
proof -
  have "(''[object Object]'' @ ''/'' @ a @ ''/'' @ b = c @ ''/'' @ a @ ''/'' @ b)
        = (''[object Object]'' = c)"
    by (rule append_same_eq)
  then show ?thesis
    unfolding offerKey_def answerKey_def by auto
qed

text \<open>What a successful \<open>relayAnswer\<close> has found and done.\<close>

lemma relayAnswer_NoneD:
  assumes "relayAnswer st source pl = (None, st')"
  shows "\<exists>p t c. pl = PObject p \<and> target p = Some t \<and> channel p = Some c \<and>
           pendingOffers st (answerKey c t (address source)) \<noteq> None \<and>
           t \<in> set (members st c) \<and>
           pendingOffers st' = (pendingOffers st)(answerKey c t (address source) := None) \<and>
           connections st' = (connections st)
              (connKey c (address source) t \<mapsto> True, connKey c t (address source) \<mapsto> True)"
proof (cases pl)
  case (PObject p)
  with assms show ?thesis
    by (auto simp add: relayAnswer_def js_defs members_def Let_def
          split: option.splits if_splits dest!: find_SomeD)
qed (use assms in \<open>auto simp add: relayAnswer_def js_defs\<close>)

text \<open>\<open>relayAnswer\<close> changes nothing unless it found the target in the channel.\<close>

lemma relayAnswer_changesD:
  assumes "snd (relayAnswer st source pl) \<noteq> st"
  shows "\<exists>p t c. pl = PObject p \<and> target p = Some t \<and> channel p = Some c \<and>
           t \<in> set (members st c)"
proof (cases pl)
  case (PObject p)
  with assms show ?thesis
    by (auto simp add: relayAnswer_def js_defs members_def Let_def
          split: option.splits if_splits dest!: find_SomeD)
qed (use assms in \<open>auto simp add: relayAnswer_def js_defs\<close>)

lemma relayOffer_changesD:
  assumes "fst (relayOffer st source pl) = None \<or> snd (relayOffer st source pl) \<noteq> st"
  shows "\<exists>p t c. pl = PObject p \<and> target p = Some t \<and> channel p = Some c \<and>
           t \<in> set (members st c)"
proof (cases pl)
  case (PObject p)
  with assms show ?thesis
    by (auto simp add: relayOffer_def js_defs members_def Let_def
          split: option.splits if_splits dest!: find_SomeD)
qed (use assms in \<open>auto simp add: relayOffer_def js_defs\<close>)

text \<open>The states of the small network, computed.\<close>

lemma channels_only_B_joined:
  "channels only_B_joined = [''room1'' \<mapsto> \<lparr>id_channel = ''room1'', peers = [''10.0.0.2'']\<rparr>]"
  by (simp add: net_defs run_defs handler_defs js_defs)

lemma peerMap_only_B_joined:
  "peerMap only_B_joined ''10.0.0.2'' = Some \<lparr>ip = ''10.0.0.2'', connection = sockB\<rparr>"
  by (simp add: net_defs run_defs handler_defs js_defs)

lemma written_only_B_joined: "written only_B_joined = []"
  by (simp add: net_defs run_defs handler_defs js_defs)

lemma offered_across_eq:
  "offered_across = fresh
     \<lparr>channels := [''room1'' \<mapsto> \<lparr>id_channel = ''room1'', peers = [''10.0.0.2'']\<rparr>,
                   ''[object Object]'' \<mapsto>
                     \<lparr>id_channel = ''[object Object]'', peers = [''10.0.0.1'']\<rparr>],
      pendingOffers := [''pendingOffers/[object Object]/10.0.0.1/10.0.0.2'' \<mapsto> ''pending''],
      written := [(sockB, Offer_msg ''10.0.0.1'' (Some (VObject ''sdp-of-A'')))]\<rparr>"
  by (simp add: net_defs run_defs handler_defs js_defs key_defs)

lemma offered_eq:
  "offered = fresh
     \<lparr>channels := [''[object Object]'' \<mapsto>
         \<lparr>id_channel = ''[object Object]'', peers = [''10.0.0.1'', ''10.0.0.2'']\<rparr>],
      pendingOffers := [''pendingOffers/[object Object]/10.0.0.1/10.0.0.2'' \<mapsto> ''pending''],
      written := [(sockB, Offer_msg ''10.0.0.1'' (Some (VObject ''sdp-of-A'')))]\<rparr>"
  by (simp add: net_defs run_defs handler_defs js_defs key_defs)

lemma offered_again_eq:
  "offered_again = fresh
     \<lparr>channels := [''[object Object]'' \<mapsto>
         \<lparr>id_channel = ''[object Object]'', peers = [''10.0.0.1'', ''10.0.0.2'']\<rparr>],
      pendingOffers := [''pendingOffers/[object Object]/10.0.0.1/10.0.0.2'' \<mapsto> ''pending''],
      connections := [''[object Object]/10.0.0.2#10.0.0.1'' \<mapsto> True,
                      ''[object Object]/10.0.0.1#10.0.0.2'' \<mapsto> True],
      written := [(sockB, Offer_msg ''10.0.0.1'' (Some (VObject ''sdp-of-A''))),
                  (sockA, Answer_msg ''10.0.0.2'' (Some (VObject ''sdp-of-B''))),
                  (sockB, Offer_msg ''10.0.0.1'' (Some (VObject ''sdp-of-A'')))]\<rparr>"
  by (simp add: net_defs run_defs handler_defs js_defs key_defs)

subsection \<open>The handshake in a channel\<close>

text \<open>
  C1. The claim: in a fresh relay, after A and B have joined \<open>room1\<close> and A's offer has
  reached B, B's answer is relayed to A and the connection store holds both directions,
  because the offer relay writes the pending-offer key the answer relay reads.

  The code does not do this. \<open>relayOffer\<close> builds its key from the \<open>Channel\<close> object
  instead of \<open>payload.channel\<close>, so the entry is stored under
  \<open>pendingOffers/[object Object]/A/B\<close> while \<open>relayAnswer\<close> looks for
  \<open>pendingOffers/room1/A/B\<close>. Run on the scenario: the offer reaches B, the answer is
  refused with "Offer doesn't exist for given target!", nothing more is written to A's
  socket, and the connection store stays empty.
\<close>

theorem handshake_room1_answer_refused:
  "fst (deliver fresh (handshake ''room1'')) = None
   \<and> written (snd (deliver fresh (handshake ''room1'')))
       = [(sockB, Offer_msg ''10.0.0.1'' (Some (VObject ''sdp-of-A'')))]
   \<and> connections (snd (deliver fresh (handshake ''room1''))) = Map.empty
   \<and> pendingOffers (snd (deliver fresh (handshake ''room1'')))
       = [''pendingOffers/[object Object]/10.0.0.1/10.0.0.2'' \<mapsto> ''pending'']
   \<and> answerKey ''room1'' ''10.0.0.1'' ''10.0.0.2'' = ''pendingOffers/room1/10.0.0.1/10.0.0.2''
   \<and> console (snd (deliver fresh (handshake ''room1'')))
       = [Err (''Signaling message incorrectly formatted, is NOT a correctly formatted message''
               @ [CHR 0x0A] @ '' Recieved [object Object]''),
          ErrMessage (Error ''Offer doesn't exist for given target!'')]"
  by (simp add: net_defs run_defs handler_defs js_defs key_defs)

subsection \<open>Malformed messages\<close>

text \<open>
  C2. The claim: a message that cannot be parsed, or that lacks \<open>type\<close> or
  \<open>payload\<close>, ends the socket it came from, is reported, and the listener returns
  normally.

  For a message that \<open>JSON.parse\<close> rejects the listener does not return normally: the
  socket is ended, and then the \<open>catch\<close> block itself throws a \<open>TypeError\<close>, since
  \<open>data\<close> is \<open>undefined\<close> where the log line calls \<open>data.toString()\<close>. Nothing
  is logged, and the exception leaves the listener.
\<close>

theorem onMessage_unparseable_throws:
  "onMessage st conn SyntaxError = (Some TypeError, st\<lparr>ended := ended st @ [conn]\<rparr>)"
  by (simp add: onMessage_def)

text \<open>An object that lacks \<open>type\<close> or \<open>payload\<close> is handled as the claim says.\<close>

lemma onMessage_object_returns: "fst (onMessage st conn (JObject ty pl)) = None"
  by (simp add: onMessage_def dispatch_def split: prod.splits option.splits)

lemma onMessage_untyped_object:
  "falsy ty \<Longrightarrow>
   onMessage st conn (JObject ty pl) = (None, abort st conn ''[object Object]'')"
  by (cases ty) (simp_all add: onMessage_def dispatch_def route_def falsy_def)

subsection \<open>Joining a channel\<close>

text \<open>
  C3, as stated, fails: \<open>joinPool\<close> has no membership test, it pushes the address of the
  sender every time. A joins \<open>room1\<close> twice and is listed twice.
\<close>

theorem joinPool_twice_lists_twice:
  "members (snd (deliver fresh [(sockA, join_pool ''room1''), (sockA, join_pool ''room1'')]))
     ''room1'' = [''10.0.0.1'', ''10.0.0.1'']"
  by (simp add: net_defs run_defs handler_defs js_defs members_def)

text \<open>
  C3, amended. For every relay state, every channel name \<open>c\<close> (not empty) and every
  sender, \<open>joinPool\<close> succeeds and appends the sender's identity to the member sequence
  of \<open>c\<close> (creating the channel when needed): each join adds one more entry for the
  sender, whether or not it is a member already.
\<close>

theorem joinPool_appends:
  assumes "channel p = Some c" and "c \<noteq> []"
  shows "fst (joinPool st source (PObject p)) = None
         \<and> members (snd (joinPool st source (PObject p))) c = members st c @ [address source]
         \<and> count_list (members (snd (joinPool st source (PObject p))) c) (address source)
             = count_list (members st c) (address source) + 1"
  using assms by (simp add: joinPool_def members_def split: option.splits)

theorem joinPool_appends_witness:
  "channel (no_fields\<lparr>channel := Some ''room1''\<rparr> :: string fields) = Some ''room1''
   \<and> ''room1'' \<noteq> []
   \<and> members (snd (joinPool only_B_joined sockB (PObject (no_fields\<lparr>channel := Some ''room1''\<rparr>))))
        ''room1'' = [''10.0.0.2'', ''10.0.0.2'']"
proof -
  have c: "channel (no_fields\<lparr>channel := Some ''room1''\<rparr> :: string fields) = Some ''room1''"
    by simp
  have n: "''room1'' \<noteq> []"
    by simp
  have m: "members only_B_joined ''room1'' = [''10.0.0.2'']"
    by (simp add: members_def channels_only_B_joined)
  show ?thesis
    using joinPool_appends [OF c n, of only_B_joined sockB] c m
    by (simp add: sockB_def)
qed

subsection \<open>Who is a member when an entry is created\<close>

text \<open>
  What the relays do check: whenever the offer relay or the answer relay returns normally
  or changes anything, the target of the message is a member of the channel the message
  names.
\<close>

lemma relays_check_target:
  "(fst (relayOffer st source pl) = None \<or> snd (relayOffer st source pl) \<noteq> st \<longrightarrow>
      (\<exists>p t c. pl = PObject p \<and> target p = Some t \<and> channel p = Some c \<and> t \<in> set (members st c)))
   \<and> (fst (relayAnswer st source pl) = None \<or> snd (relayAnswer st source pl) \<noteq> st \<longrightarrow>
      (\<exists>p t c. pl = PObject p \<and> target p = Some t \<and> channel p = Some c \<and> t \<in> set (members st c)))"
proof (intro conjI impI)
  assume "fst (relayOffer st source pl) = None \<or> snd (relayOffer st source pl) \<noteq> st"
  then show "\<exists>p t c. pl = PObject p \<and> target p = Some t \<and> channel p = Some c \<and> t \<in> set (members st c)"
    by (rule relayOffer_changesD)
next
  assume a: "fst (relayAnswer st source pl) = None \<or> snd (relayAnswer st source pl) \<noteq> st"
  show "\<exists>p t c. pl = PObject p \<and> target p = Some t \<and> channel p = Some c \<and> t \<in> set (members st c)"
  proof (cases "snd (relayAnswer st source pl) = st")
    case False
    then show ?thesis by (rule relayAnswer_changesD)
  next
    case True
    with a have "relayAnswer st source pl = (None, st)"
      by (simp add: prod_eq_iff)
    from relayAnswer_NoneD [OF this] show ?thesis by blast
  qed
qed

text \<open>
  C4. The claim: every pending offer the offer relay creates has an offerer and a target
  that are both members of the channel of the message at that time, and every pair of
  connection records the answer relay creates has two peers that are both members of the
  channel: the sender of the message too, not only its target.

  The code does not do this. The comment of \<open>relayOffer\<close> announces the test, "Check if
  peer in channel with offerer", and the lines under it look for \<open>payload.target\<close> in
  \<open>channel.peers\<close> and never for the sender. Only B has joined \<open>room1\<close>; A, which
  has joined nothing, sends an offer for B in \<open>room1\<close>: the relay returns normally,
  the offer is written to B's socket, and the pending offer of A is stored.
\<close>

theorem offer_of_non_member_is_recorded:
  "members only_B_joined ''room1'' = [''10.0.0.2'']
   \<and> address sockA = ''10.0.0.1''
   \<and> fst (relayOffer only_B_joined sockA (PObject (offer_to ''10.0.0.2'' ''room1'' (VObject ''sdp-of-A'')))) = None
   \<and> written
        (snd (relayOffer only_B_joined sockA (PObject (offer_to ''10.0.0.2'' ''room1'' (VObject ''sdp-of-A'')))))
       = [(sockB, Offer_msg ''10.0.0.1'' (Some (VObject ''sdp-of-A'')))]
   \<and> pendingOffers
        (snd (relayOffer only_B_joined sockA (PObject (offer_to ''10.0.0.2'' ''room1'' (VObject ''sdp-of-A'')))))
        ''pendingOffers/[object Object]/10.0.0.1/10.0.0.2'' = Some ''pending''"
  by (simp add: members_def channels_only_B_joined peerMap_only_B_joined written_only_B_joined
        relayOffer_def offer_to_def js_defs key_defs sockA_def)

text \<open>
  The answer relay does not look for the sender either. With the keys as the relays
  build them, an offer made in one channel can be answered in the channel named
  \<open>[object Object]\<close>: B, a member of \<open>room1\<close> only, answers there the offer A made in
  \<open>room1\<close>, and both connection records are stored for a channel B is not in.
\<close>

lemma answer_of_non_member_is_recorded:
  "members offered_across ''[object Object]'' = [''10.0.0.1'']
   \<and> address sockB = ''10.0.0.2''
   \<and> fst (relayAnswer offered_across sockB
             (PObject (answer_to ''10.0.0.1'' ''[object Object]'' (VObject ''sdp-of-B'')))) = None
   \<and> connections (snd (relayAnswer offered_across sockB
             (PObject (answer_to ''10.0.0.1'' ''[object Object]'' (VObject ''sdp-of-B'')))))
       = [''[object Object]/10.0.0.2#10.0.0.1'' \<mapsto> True,
          ''[object Object]/10.0.0.1#10.0.0.2'' \<mapsto> True]"
  by (simp add: offered_across_eq members_def relayAnswer_def answer_to_def js_defs key_defs
        fresh_def connectionHandler_def constructor_def sockA_def sockB_def)

subsection \<open>Answers\<close>

text \<open>
  The third test of \<open>relayAnswer\<close> reads \<open>payload.channel\<close> a second time, where its
  message speaks of the \<open>answer\<close> property: the error for a missing answer is never
  thrown.
\<close>

lemma relayAnswer_never_misses_answer:
  "fst (relayAnswer st source pl) \<noteq> Some (Error ''answer property not found on message payload'')"
  by (cases pl)
     (auto simp add: relayAnswer_def js_defs Let_def split: option.splits if_splits)

text \<open>
  C5. The claim: an answer message that lacks \<open>target\<close>, \<open>answer\<close> or \<open>channel\<close>
  fails with the error for a missing field before anything is written or changed, also
  when only \<open>answer\<close> is missing.

  The code does not do this when only \<open>answer\<close> is missing. In the state where A's
  offer to B is pending, B's answer without an \<open>answer\<close> field is relayed: the relay
  returns normally, writes an answer message without an answer to A's socket, deletes
  the pending offer and stores both connection records.
\<close>

theorem answer_without_answer_is_relayed:
  "answer answer_missing = None
   \<and> fst (relayAnswer offered sockB (PObject answer_missing)) = None
   \<and> written (snd (relayAnswer offered sockB (PObject answer_missing)))
       = written offered @ [(sockA, Answer_msg ''10.0.0.2'' None)]
   \<and> pendingOffers (snd (relayAnswer offered sockB (PObject answer_missing))) = Map.empty
   \<and> connections (snd (relayAnswer offered sockB (PObject answer_missing)))
       = [''[object Object]/10.0.0.2#10.0.0.1'' \<mapsto> True,
          ''[object Object]/10.0.0.1#10.0.0.2'' \<mapsto> True]"
  by (simp add: offered_eq relayAnswer_def answer_missing_def js_defs key_defs
        fresh_def connectionHandler_def constructor_def sockA_def sockB_def)

text \<open>
  C6. For every relay state and every answer message that names a channel \<open>c\<close> and a
  target \<open>t\<close>, sent from \<open>source\<close>: when the pending-offer store has no entry for
  (\<open>c\<close>, offerer \<open>t\<close>, target \<open>source\<close>), the answer relay throws the error "Offer
  doesn't exist for given target!" (the relay's not-found error for a pending offer) and
  leaves the whole instance as it was: connection store, the other registries, and the
  sockets.
\<close>

theorem answer_without_offer_fails:
  assumes "target p = Some t" and "t \<noteq> []" and "channel p = Some c" and "c \<noteq> []"
    and "pendingOffers st (answerKey c t (address source)) = None"
  shows "relayAnswer st source (PObject p)
         = (Some (Error ''Offer doesn't exist for given target!''), st)"
  using assms by (simp add: relayAnswer_def falsy_def str_def throw_def)

theorem answer_without_offer_fails_witness:
  "target (answer_to ''10.0.0.1'' ''room1'' (VObject ''sdp-of-B'')) = Some ''10.0.0.1''
   \<and> ''10.0.0.1'' \<noteq> []
   \<and> channel (answer_to ''10.0.0.1'' ''room1'' (VObject ''sdp-of-B'')) = Some ''room1''
   \<and> ''room1'' \<noteq> []
   \<and> pendingOffers only_B_joined (answerKey ''room1'' ''10.0.0.1'' (address sockB)) = None
   \<and> relayAnswer only_B_joined sockB (PObject (answer_to ''10.0.0.1'' ''room1'' (VObject ''sdp-of-B'')))
       = (Some (Error ''Offer doesn't exist for given target!''), only_B_joined)"
proof -
  have t: "target (answer_to ''10.0.0.1'' ''room1'' (VObject ''sdp-of-B'')) = Some ''10.0.0.1''"
    by (simp add: answer_to_def)
  have c: "channel (answer_to ''10.0.0.1'' ''room1'' (VObject ''sdp-of-B'')) = Some ''room1''"
    by (simp add: answer_to_def)
  have n: "pendingOffers only_B_joined (answerKey ''room1'' ''10.0.0.1'' (address sockB)) = None"
    by (simp add: net_defs run_defs handler_defs js_defs)
  have "''10.0.0.1'' \<noteq> []" and "''room1'' \<noteq> []"
    by simp_all
  from answer_without_offer_fails [OF t this(1) c this(2) n] t c n
  show ?thesis by simp
qed

text \<open>
  C7, as stated, fails: a successful answer does not always add two connection records.
  \<open>Map.set\<close> on a key that is there already adds nothing. After a complete handshake of
  A and B and a second offer of A, B's second answer succeeds and the connection store has
  the same two keys as before.
\<close>

theorem second_answer_adds_no_record:
  "fst (relayAnswer offered_again sockB (PObject (answer_to ''10.0.0.1'' ''[object Object]'' (VObject ''sdp-of-B''))))
     = None
   \<and> dom (connections offered_again)
       = {''[object Object]/10.0.0.2#10.0.0.1'', ''[object Object]/10.0.0.1#10.0.0.2''}
   \<and> dom (connections (snd (relayAnswer offered_again sockB
                (PObject (answer_to ''10.0.0.1'' ''[object Object]'' (VObject ''sdp-of-B''))))))
       = {''[object Object]/10.0.0.2#10.0.0.1'', ''[object Object]/10.0.0.1#10.0.0.2''}"
  by (simp add: offered_again_eq relayAnswer_def answer_to_def js_defs key_defs
        fresh_def connectionHandler_def constructor_def sockA_def sockB_def insert_commute)

text \<open>
  C7, amended. For every relay state in which an answer relay succeeds, for the channel
  \<open>c\<close> and the target \<open>t\<close> of the message: the matching pending offer was there and is
  deleted, no other pending offer changes; afterwards the connection store maps both keys
  of the symmetric pair, (\<open>c\<close>, sender, \<open>t\<close>) and (\<open>c\<close>, \<open>t\<close>, sender), to true, and
  no other connection record changes. (The two keys are new entries only where they were
  not recorded before.)
\<close>

theorem relayAnswer_success:
  assumes "relayAnswer st source pl = (None, st')"
  shows "\<exists>p t c. pl = PObject p \<and> target p = Some t \<and> channel p = Some c \<and>
           pendingOffers st (answerKey c t (address source)) \<noteq> None \<and>
           pendingOffers st' = (pendingOffers st)(answerKey c t (address source) := None) \<and>
           connections st' = (connections st)
              (connKey c (address source) t \<mapsto> True, connKey c t (address source) \<mapsto> True)"
  using relayAnswer_NoneD [OF assms] by blast

theorem relayAnswer_success_witness:
  "relayAnswer offered sockB (PObject (answer_to ''10.0.0.1'' ''[object Object]'' (VObject ''sdp-of-B'')))
     = (None, offered
         \<lparr>pendingOffers := Map.empty,
          connections := [''[object Object]/10.0.0.2#10.0.0.1'' \<mapsto> True,
                          ''[object Object]/10.0.0.1#10.0.0.2'' \<mapsto> True],
          written := written offered @ [(sockA, Answer_msg ''10.0.0.2'' (Some (VObject ''sdp-of-B'')))]\<rparr>)
   \<and> (\<exists>p t c. PObject (answer_to ''10.0.0.1'' ''[object Object]'' (VObject ''sdp-of-B'')) = PObject p
         \<and> target p = Some t \<and> channel p = Some c
         \<and> pendingOffers offered (answerKey c t (address sockB)) \<noteq> None
         \<and> Map.empty = (pendingOffers offered)(answerKey c t (address sockB) := None)
         \<and> [''[object Object]/10.0.0.2#10.0.0.1'' \<mapsto> True,
             ''[object Object]/10.0.0.1#10.0.0.2'' \<mapsto> True]
            = (connections offered)
                (connKey c (address sockB) t \<mapsto> True, connKey c t (address sockB) \<mapsto> True))"
proof -
  have r: "relayAnswer offered sockB (PObject (answer_to ''10.0.0.1'' ''[object Object]'' (VObject ''sdp-of-B'')))
     = (None, offered
         \<lparr>pendingOffers := Map.empty,
          connections := [''[object Object]/10.0.0.2#10.0.0.1'' \<mapsto> True,
                          ''[object Object]/10.0.0.1#10.0.0.2'' \<mapsto> True],
          written := written offered @ [(sockA, Answer_msg ''10.0.0.2'' (Some (VObject ''sdp-of-B'')))]\<rparr>)"
    by (simp add: offered_eq relayAnswer_def answer_to_def js_defs key_defs
          fresh_def connectionHandler_def constructor_def sockA_def sockB_def)
  from relayAnswer_success [OF r] r show ?thesis
    by simp
qed

subsection \<open>Offers\<close>

text \<open>
  C8. For every relay state and every offer message (its \<open>target\<close> and \<open>channel\<close>
  not empty, its \<open>offer\<close> truthy) whose target is not in the member sequence of the
  channel it names, the channel that does not exist included: the offer relay throws
  "Channel doesn't exist" or "Peer not in channel!", and the instance is as it was, so no
  pending offer is stored and nothing is written to any socket.
\<close>

theorem offer_to_non_member_fails:
  assumes "target p = Some t" and "t \<noteq> []" and "channel p = Some c" and "c \<noteq> []"
    and "\<not> falsy_value (offer p)"
    and "t \<notin> set (members st c)"
  shows "relayOffer st source (PObject p)
         = (Some (Error (if channels st c = None then ''Channel doesn't exist''
                         else ''Peer not in channel!'')), st)"
  using assms
  by (auto simp add: relayOffer_def falsy_def map_get_def throw_def members_def find_absent
        split: option.splits)

theorem offer_to_non_member_fails_witness:
  "target (offer_to ''10.0.0.1'' ''room1'' (VObject ''sdp-of-B'')) = Some ''10.0.0.1''
   \<and> ''10.0.0.1'' \<noteq> []
   \<and> channel (offer_to ''10.0.0.1'' ''room1'' (VObject ''sdp-of-B'')) = Some ''room1''
   \<and> ''room1'' \<noteq> []
   \<and> \<not> falsy_value (offer (offer_to ''10.0.0.1'' ''room1'' (VObject ''sdp-of-B'')))
   \<and> ''10.0.0.1'' \<notin> set (members only_B_joined ''room1'')
   \<and> relayOffer only_B_joined sockB (PObject (offer_to ''10.0.0.1'' ''room1'' (VObject ''sdp-of-B'')))
       = (Some (Error ''Peer not in channel!''), only_B_joined)"
proof -
  have t: "target (offer_to ''10.0.0.1'' ''room1'' (VObject ''sdp-of-B'')) = Some ''10.0.0.1''"
    by (simp add: offer_to_def)
  have c: "channel (offer_to ''10.0.0.1'' ''room1'' (VObject ''sdp-of-B'')) = Some ''room1''"
    by (simp add: offer_to_def)
  have v: "\<not> falsy_value (offer (offer_to ''10.0.0.1'' ''room1'' (VObject ''sdp-of-B'')))"
    by (simp add: offer_to_def falsy_value_def)
  have m: "''10.0.0.1'' \<notin> set (members only_B_joined ''room1'')"
    by (simp add: members_def channels_only_B_joined)
  have "''10.0.0.1'' \<noteq> []" and "''room1'' \<noteq> []"
    by simp_all
  from offer_to_non_member_fails [OF t this(1) c this(2) v m, of sockB] t c v m
  show ?thesis by (simp add: channels_only_B_joined)
qed

text \<open>
  An offer that is there but falsy (an empty string, say) is refused before the channel
  is looked at, with the error for the missing field, and nothing changes.
\<close>

lemma falsy_offer_is_refused:
  assumes "target p = Some t" and "t \<noteq> []" and "channel p = Some c" and "c \<noteq> []"
    and "falsy_value (offer p)"
  shows "relayOffer st source (PObject p)
         = (Some (Error ''offer property not found on message payload''), st)"
  using assms by (simp add: relayOffer_def falsy_def throw_def)

text \<open>The same without the fields: the relay fails and changes nothing.\<close>

lemma offer_to_non_member_changes_nothing:
  assumes "\<And>t. target p = Some t \<Longrightarrow> t \<notin> set (members st (str (channel p)))"
  shows "\<exists>e. relayOffer st source (PObject p) = (Some e, st)"
  using assms
  by (auto simp add: relayOffer_def js_defs members_def find_absent split: option.splits)

subsection \<open>The upgrade event\<close>

text \<open>
  No handler registers a listener on the private emitter, and with no listener there no
  handler calls one: from the constructor on, whatever is subscribed with \<open>on\<close> and
  whatever messages arrive, no listener is ever called.
\<close>

lemma joinPool_emitter:
  "emitter (snd (joinPool st conn pl)) = emitter st
   \<and> delivered (snd (joinPool st conn pl)) = delivered st"
  by (simp add: joinPool_def throw_def split: sum.splits option.splits)

lemma relayOffer_emitter:
  "emitter (snd (relayOffer st conn pl)) = emitter st
   \<and> delivered (snd (relayOffer st conn pl)) = delivered st"
  by (simp add: relayOffer_def throw_def write_socket_def Let_def split: sum.splits option.splits)

lemma relayAnswer_emitter: "emitter (snd (relayAnswer st conn pl)) = emitter st"
  by (simp add: relayAnswer_def throw_def write_socket_def Let_def split: sum.splits option.splits)

lemma relayAnswer_no_listener:
  "emitter st = [] \<Longrightarrow> delivered (snd (relayAnswer st conn pl)) = delivered st"
  by (simp add: relayAnswer_def throw_def write_socket_def emit_def Let_def
        split: sum.splits option.splits)

lemma passCandidate_emitter:
  "emitter (snd (passCandidate st conn pl)) = emitter st
   \<and> delivered (snd (passCandidate st conn pl)) = delivered st"
  by (simp add: passCandidate_def write_socket_def split: sum.splits option.splits)

lemma route_emitter:
  "emitter st = [] \<Longrightarrow>
   emitter (snd (route st conn ty pl)) = [] \<and> delivered (snd (route st conn ty pl)) = delivered st"
  by (simp add: route_def joinPool_emitter relayOffer_emitter relayAnswer_emitter
        relayAnswer_no_listener passCandidate_emitter)

lemma dispatch_emitter:
  assumes "emitter st = []"
  shows "emitter (snd (dispatch st conn ty pl shown)) = []
         \<and> delivered (snd (dispatch st conn ty pl shown)) = delivered st"
proof (cases "route st conn ty pl")
  case (Pair e st')
  with route_emitter [OF assms, of conn ty pl] show ?thesis
    by (cases e) (simp_all add: dispatch_def)
qed

lemma onMessage_emitter:
  assumes "emitter st = []"
  shows "emitter (snd (onMessage st conn d)) = []
         \<and> delivered (snd (onMessage st conn d)) = delivered st"
proof (cases d)
  case SyntaxError
  with assms show ?thesis by (simp add: onMessage_def)
next
  case JNull
  with assms show ?thesis by (simp add: onMessage_def)
next
  case (JValue shown)
  have "emitter (abort st conn shown) = []" "delivered (abort st conn shown) = delivered st"
    using assms by (simp_all add: abort_def)
  with dispatch_emitter [of "abort st conn shown" conn None PUndefined shown] JValue
  show ?thesis by (simp add: onMessage_def)
next
  case (JObject ty pl)
  have "emitter (abort st conn ''[object Object]'') = []"
    "delivered (abort st conn ''[object Object]'') = delivered st"
    using assms by (simp_all add: abort_def)
  with dispatch_emitter [of "abort st conn ''[object Object]''" conn ty pl "''[object Object]''"]
    dispatch_emitter [OF assms, of conn ty pl "''[object Object]''"] JObject
  show ?thesis by (simp add: onMessage_def)
qed

lemma deliver_calls_no_listener:
  "emitter st = [] \<Longrightarrow> delivered (snd (deliver st ms)) = delivered st"
proof (induction ms arbitrary: st)
  case Nil
  show ?case by simp
next
  case (Cons m ms)
  obtain conn d where m: "m = (conn, d)"
    by (cases m)
  obtain e st' where r: "onMessage st conn d = (e, st')"
    by (cases "onMessage st conn d")
  from onMessage_emitter [OF Cons.prems, of conn d] r
  have "emitter st' = []" and "delivered st' = delivered st"
    by simp_all
  with Cons.IH [of st'] m r show ?case
    by (cases e) simp_all
qed

lemma subscribing_leaves_emitter:
  "emitter (on ev l st) = emitter st" "emitter (connectionHandler st conn) = emitter st"
  "emitter (constructor p v) = []"
  by (simp_all add: on_def connectionHandler_def constructor_def Let_def)

text \<open>
  C9. The claim: for every successful answer relay, a subscriber registered through the
  public interface of the relay for \<open>p2p-upgrade\<close> observes the event with the pair
  (sender, target).

  The code does not do this. The event is emitted on the private \<open>#emitter\<close>, which no
  method of the class exposes, and under the name \<open>p2pupgrade\<close>; listeners registered
  with \<open>on\<close>, which the class inherits from \<open>EventEmitter\<close>, are on the relay object
  and are not called. With one listener subscribed for \<open>p2p-upgrade\<close> and one for
  \<open>p2pupgrade\<close>, A and B complete a handshake (both connection records are stored) and
  no listener is called.
\<close>

theorem subscriber_is_never_called:
  "fst (deliver (on ''p2p-upgrade'' 1 (on ''p2pupgrade'' 2 fresh)) (handshake ''[object Object]'')) = None
   \<and> connections (snd (deliver (on ''p2p-upgrade'' 1 (on ''p2pupgrade'' 2 fresh))
                          (handshake ''[object Object]'')))
       = [''[object Object]/10.0.0.2#10.0.0.1'' \<mapsto> True,
          ''[object Object]/10.0.0.1#10.0.0.2'' \<mapsto> True]
   \<and> listeners (snd (deliver (on ''p2p-upgrade'' 1 (on ''p2pupgrade'' 2 fresh))
                        (handshake ''[object Object]'')))
       = [(''p2pupgrade'', 2), (''p2p-upgrade'', 1)]
   \<and> delivered (snd (deliver (on ''p2p-upgrade'' 1 (on ''p2pupgrade'' 2 fresh))
                        (handshake ''[object Object]''))) = []"
  by (simp add: on_def net_defs run_defs handler_defs js_defs key_defs)

subsection \<open>Candidates\<close>

text \<open>
  C10, as stated, fails in its second half: \<open>passCandidate\<close> has no test for a target
  that is not registered. \<open>this.#peerMap.get(payload.target)\<close> is \<open>undefined\<close>, and
  reading \<open>connection\<close> of it throws the runtime's \<open>TypeError\<close>, not an error of the
  relay that says what was not found.
\<close>

theorem candidate_for_unregistered_target:
  "peerMap fresh ''10.0.0.9'' = None
   \<and> passCandidate fresh sockA (PObject (candidate_to ''10.0.0.9'' (VObject ''candidate-of-A'')))
       = (Some TypeError, fresh)"
  by (simp add: passCandidate_def candidate_to_def js_defs
        fresh_def connectionHandler_def constructor_def sockA_def sockB_def)

text \<open>
  C10, amended. For every candidate message with a target: if the target has an entry in
  the peer registry, the relay writes a message of type \<open>candidate\<close> with the candidate
  of the message, unchanged, to the socket of that entry, and changes nothing else; if
  the target has no entry, the operation throws a \<open>TypeError\<close> (which the message
  listener catches and logs) and changes nothing.
\<close>

theorem passCandidate_relays:
  assumes "target p = Some t"
  shows "passCandidate st source (PObject p) =
           (case peerMap st t of
              None \<Rightarrow> (Some TypeError, st)
            | Some pr \<Rightarrow>
                (None, st\<lparr>written := written st @ [(connection pr, Candidate_msg (candidate p))]\<rparr>))"
  using assms by (simp add: passCandidate_def map_get_def write_socket_def split: option.splits)

theorem passCandidate_relays_witness:
  "target (candidate_to ''10.0.0.2'' (VObject ''candidate-of-A'')) = Some ''10.0.0.2''
   \<and> passCandidate fresh sockA (PObject (candidate_to ''10.0.0.2'' (VObject ''candidate-of-A'')))
       = (None, fresh\<lparr>written := [(sockB, Candidate_msg (Some (VObject ''candidate-of-A'')))]\<rparr>)"
proof -
  have t: "target (candidate_to ''10.0.0.2'' (VObject ''candidate-of-A'')) = Some ''10.0.0.2''"
    by (simp add: candidate_to_def)
  from passCandidate_relays [OF t, of fresh sockA] t show ?thesis
    by (simp add: candidate_to_def no_fields_def
          fresh_def connectionHandler_def constructor_def sockA_def sockB_def)
qed

end
